theory Spec2Isabelle
  imports Complex_Main "HOL-Library.Sublist" "HOL-Library.Product_Lexorder"
begin

section \<open>Python strings\<close>

text \<open>
  Texts are \<^typ>\<open>string\<close>: one \<^typ>\<open>char\<close> per character of the Python \<open>str\<close>, restricted to
  the ASCII range, where \<open>str.lower\<close>, \<open>str.isdigit\<close> and \<open>str.strip\<close> have the meaning written
  out below.
\<close>

definition lower_char :: "char \<Rightarrow> char" where
  "lower_char c =
     (case map_of (zip ''ABCDEFGHIJKLMNOPQRSTUVWXYZ'' ''abcdefghijklmnopqrstuvwxyz'') c of
        Some d \<Rightarrow> d
      | None \<Rightarrow> c)"

definition lower :: "string \<Rightarrow> string" where
  "lower s = map lower_char s"

definition isdigit :: "string \<Rightarrow> bool" where
  \<comment> \<open>\<open>str.isdigit\<close>: false on the empty string\<close>
  "isdigit s = (s \<noteq> [] \<and> list_all (\<lambda>c. c \<in> set ''0123456789'') s)"

definition isspace_char :: "char \<Rightarrow> bool" where
  "isspace_char c =
     (c \<in> set [CHR 0x09, CHR 0x0A, CHR 0x0B, CHR 0x0C, CHR 0x0D,
                CHR 0x1C, CHR 0x1D, CHR 0x1E, CHR 0x1F, CHR 0x20])"

definition strip :: "string \<Rightarrow> string" where
  "strip s = rev (dropWhile isspace_char (rev (dropWhile isspace_char s)))"

fun join :: "string \<Rightarrow> string list \<Rightarrow> string" where
  "join sep [] = []"
| "join sep [x] = x"
| "join sep (x # y # ys) = x @ sep @ join sep (y # ys)"

fun contains :: "string \<Rightarrow> string \<Rightarrow> bool" where
  \<comment> \<open>\<open>contains sub s\<close> is Python's \<open>sub in s\<close>\<close>
  "contains sub [] = (sub = [])"
| "contains sub (c # cs) = (prefix sub (c # cs) \<or> contains sub cs)"

function replace :: "string \<Rightarrow> string \<Rightarrow> string \<Rightarrow> string" where
  \<comment> \<open>\<open>replace old new s\<close> is \<open>s.replace(old, new)\<close>\<close>
  "replace old new s =
     (if old = [] then new @ concat (map (\<lambda>c. c # new) s)
      else if s = [] then []
      else if prefix old s then new @ replace old new (drop (length old) s)
      else hd s # replace old new (tl s))"
  by pat_completeness auto
termination
  by (relation "measure (\<lambda>(old, new, s). length s)") auto

declare replace.simps [simp del]

definition adjust_index :: "int \<Rightarrow> nat \<Rightarrow> nat" where
  \<comment> \<open>how a slice bound is read against a sequence of length \<open>n\<close>: a negative bound counts
      from the end, and the result is clamped to \<open>0..n\<close>\<close>
  "adjust_index i n = (if i < 0 then nat (max (i + int n) 0) else min (nat i) n)"

definition slice :: "'a list \<Rightarrow> int \<Rightarrow> int \<Rightarrow> 'a list" where
  \<comment> \<open>\<open>slice s i j\<close> is \<open>s[i:j]\<close>\<close>
  "slice s i j =
     (let a = adjust_index i (length s); b = adjust_index j (length s)
      in take (b - a) (drop a s))"

fun last_index :: "'a \<Rightarrow> 'a list \<Rightarrow> nat option" where
  \<comment> \<open>the highest position of \<open>x\<close> in the list\<close>
  "last_index x [] = None"
| "last_index x (y # ys) =
     (case last_index x ys of
        Some k \<Rightarrow> Some (Suc k)
      | None \<Rightarrow> (if x = y then Some 0 else None))"

definition rfind :: "string \<Rightarrow> char \<Rightarrow> int \<Rightarrow> int \<Rightarrow> int" where
  \<comment> \<open>\<open>rfind s c i j\<close> is \<open>s.rfind(c, i, j)\<close> for a one-character needle: the highest index
      of \<open>c\<close> in \<open>s[i:j]\<close>, as an index of \<open>s\<close>, or \<open>-1\<close>\<close>
  "rfind s c i j =
     (case last_index c (slice s i j) of
        Some k \<Rightarrow> int (adjust_index i (length s)) + int k
      | None \<Rightarrow> - 1)"

definition truthy :: "string option \<Rightarrow> bool" where
  \<comment> \<open>truth value of an \<open>Optional[str]\<close>: neither \<open>None\<close> nor empty\<close>
  "truthy v = (case v of None \<Rightarrow> False | Some s \<Rightarrow> s \<noteq> [])"


section \<open>Strategy builder (search\_orchestrator.py)\<close>

record SearchEntities =
  project :: "string option"
  contractor :: "string option"
  document_type :: "string option"
  keywords_list :: "string list"
  date_range :: "(string \<times> string) list option"
  amount_range :: "(string \<times> real) list option"
  specific_file :: "string option"

datatype strategy_type = hybrid | vector | keyword

datatype filter_expr =
    Like string string
  | Any_of filter_expr filter_expr
  | All_of filter_expr filter_expr

record strategy =
  stype :: strategy_type
  query :: string
  alpha :: "real option"
  filters :: "filter_expr option"

definition build_filters :: "SearchEntities \<Rightarrow> filter_expr option" where
  "build_filters entities =
     (let conditions =
            (if truthy (project entities)
             then [Like ''project_name'' (''*'' @ the (project entities) @ ''*'')] else [])
          @ (if truthy (contractor entities)
             then [Any_of (Like ''contractor'' (''*'' @ the (contractor entities) @ ''*''))
                          (Like ''vendor_name'' (''*'' @ the (contractor entities) @ ''*''))]
             else [])
          @ (if truthy (document_type entities)
             then [Like ''document_type'' (''*'' @ the (document_type entities) @ ''*'')]
             else [])
      in case conditions of
           [] \<Rightarrow> None
         | c # cs \<Rightarrow> Some (foldl All_of c cs))"

definition strategy_terms :: "SearchEntities \<Rightarrow> string list" where
  "strategy_terms entities =
       (if truthy (project entities) then [the (project entities)] else [])
     @ (if truthy (contractor entities) then [the (contractor entities)] else [])
     @ (if truthy (document_type entities) then [the (document_type entities)] else [])
     @ keywords_list entities"

definition build_search_strategies :: "SearchEntities \<Rightarrow> strategy list" where
  "build_search_strategies entities =
     (let terms = strategy_terms entities
      in (if terms \<noteq> []
          then [\<lparr>stype = hybrid, query = join '' '' terms, alpha = Some 0.5,
                  filters = build_filters entities\<rparr>]
          else [])
       @ (if length (join '' '' terms) > 10
          then [\<lparr>stype = vector, query = join '' '' terms, alpha = None,
                  filters = build_filters entities\<rparr>]
          else [])
       @ (if truthy (specific_file entities)
             \<or> list_ex (\<lambda>kw. isdigit (replace ''.'' '''' kw)) (keywords_list entities)
          then [\<lparr>stype = keyword,
                  query = (if truthy (specific_file entities) then the (specific_file entities)
                           else join '' '' (keywords_list entities)),
                  alpha = None, filters = build_filters entities\<rparr>]
          else [])
       @ (if terms \<noteq> []
          then [\<lparr>stype = hybrid, query = join '' '' terms, alpha = Some 0.7, filters = None\<rparr>]
          else []))"


section \<open>Chunking (document\_processor.py)\<close>

text \<open>
  One pass of the loop body of \<open>chunk_text\<close> up to the choice of \<open>end\<close>: the window is
  \<open>chunk_size\<close> characters long or reaches the end of the text, and a window that stops short
  of the end of the text is cut back to just behind its last \<open>'.'\<close> when that lies beyond the
  middle of the window.
\<close>

definition window_end :: "string \<Rightarrow> int \<Rightarrow> int \<Rightarrow> int" where
  "window_end text chunk_size start =
     (let text_length = int (length text);
          end = min (start + chunk_size) text_length
      in if end < text_length
         then (let sentence_end = rfind text (CHR ''.'') start end
               in if sentence_end > start + chunk_size div 2 then sentence_end + 1 else end)
         else end)"

text \<open>
  The \<open>while start < text_length\<close> loop. For arbitrary \<open>chunk_size\<close> and \<open>overlap\<close> it need
  not terminate, so it is a partial function: \<open>None\<close> stands for a call that never returns.
\<close>

partial_function (option)
  chunk_loop :: "string \<Rightarrow> int \<Rightarrow> int \<Rightarrow> int \<Rightarrow> string list \<Rightarrow> string list option"
where
  "chunk_loop text chunk_size overlap start chunks =
     (if start < int (length text)
      then (let end = window_end text chunk_size start;
                chunk = strip (slice text start end)
            in chunk_loop text chunk_size overlap
                 (if end < int (length text) then end - overlap else int (length text))
                 (if chunk \<noteq> [] then chunks @ [chunk] else chunks))
      else Some chunks)"

declare chunk_loop.simps [code]

definition chunk_text :: "string \<Rightarrow> int \<Rightarrow> int \<Rightarrow> string list option" where
  "chunk_text text chunk_size overlap = chunk_loop text chunk_size overlap 0 []"


section \<open>Document processor (document\_processor.py)\<close>

text \<open>
  What the change feed says about one remote item, as \<open>_entry_to_dict\<close> builds it. The keys
  that none of the operations below reads (\<open>path_lower\<close>, \<open>size\<close>, \<open>rev\<close>, the modification
  dates and the remote content hash) are left out.
\<close>

record metadata =
  md_name :: string
  md_path_display :: string
  md_id :: string
  md_type :: string
  md_change_type :: "string option"

text \<open>
  The dictionary \<open>process_document\<close> returns. The metadata guessed from the path and from the
  text with regular expressions (project, contractor, document type, invoice fields) and the
  file size and dates are copied along by the indexer and read by none of the operations
  below; they are left out.
\<close>

record document =
  doc_id :: string
  doc_name :: string
  doc_file_path :: string
  doc_content :: string
  doc_full_text :: "string option"

text \<open>
  Byte-level text extraction is done by libraries outside the repository; the processor only
  dispatches on the file extension. The extractors are parameters.
\<close>

record extractors =
  extract_pdf_text :: "string \<Rightarrow> string option"
  extract_docx_text :: "string \<Rightarrow> string option"
  extract_xlsx_text :: "string \<Rightarrow> string option"
  decode_utf8 :: "string \<Rightarrow> string"

definition path_name :: "string \<Rightarrow> string" where
  \<comment> \<open>\<open>Path(p).name\<close>: the last component of the path\<close>
  "path_name p =
     rev (takeWhile (\<lambda>c. c \<noteq> CHR ''/'') (dropWhile (\<lambda>c. c = CHR ''/'') (rev p)))"

definition path_suffix :: "string \<Rightarrow> string" where
  \<comment> \<open>\<open>Path(p).suffix\<close>: the last dot of the name and what follows it, unless that dot
      starts or ends the name\<close>
  "path_suffix p =
     (let name = path_name p
      in case last_index (CHR ''.'') name of
           None \<Rightarrow> []
         | Some i \<Rightarrow> (if 0 < i \<and> i < length name - 1 then drop i name else []))"

definition extract_text :: "extractors \<Rightarrow> string \<Rightarrow> string \<Rightarrow> string option" where
  \<comment> \<open>the dispatch on the extension; \<open>None\<close> is Python's \<open>None\<close>, from an unsupported
      extension or from an extractor\<close>
  "extract_text E file_ext content =
     (if file_ext = ''.pdf'' then extract_pdf_text E content
      else if file_ext \<in> set [''.txt'', ''.md'', ''.csv''] then Some (decode_utf8 E content)
      else if file_ext \<in> set [''.docx'', ''.doc''] then extract_docx_text E content
      else if file_ext \<in> set [''.xlsx'', ''.xls''] then extract_xlsx_text E content
      else None)"

definition process_document :: "extractors \<Rightarrow> string \<Rightarrow> metadata \<Rightarrow> document option" where
  "process_document E content file_metadata =
     (let file_path = md_path_display file_metadata;
          file_ext = lower (path_suffix file_path)
      in case extract_text E file_ext content of
           None \<Rightarrow> None
         | Some text \<Rightarrow>
             (if text = [] then None
              else Some \<lparr>doc_id = md_id file_metadata,
                         doc_name = md_name file_metadata,
                         doc_file_path = file_path,
                         doc_content = take 50000 text,
                         doc_full_text = Some text\<rparr>))"


section \<open>Index writer (weaviate\_indexer.py)\<close>

text \<open>
  The two collections of the vector store. An object is its identifier and its properties;
  a collection is the list of its objects in the order in which a fetch returns them, so
  that \<open>fetch_objects(filters=f, limit=n)\<close> is \<open>take n (filter f objects)\<close>. Identifiers are
  handed out from a counter. Calls to the store are taken to succeed.
\<close>

record document_object =
  dropbox_id :: string
  name :: string
  file_path :: string
  content :: string
  content_hash :: string

record chunk_object =
  parent_dropbox_id :: string
  parent_name :: string
  chunk_index :: nat
  total_chunks :: nat
  chunk_content :: string
  chunk_size :: nat
  chunk_file_path :: string

record index =
  client :: bool
  documents :: "(nat \<times> document_object) list"
  chunks :: "(nat \<times> chunk_object) list"
  next_uuid :: nat

definition fetch_objects :: "('a \<Rightarrow> bool) \<Rightarrow> nat \<Rightarrow> (nat \<times> 'a) list \<Rightarrow> (nat \<times> 'a) list" where
  "fetch_objects f limit objects = take limit (filter (\<lambda>obj. f (snd obj)) objects)"

definition delete_by_id :: "nat \<Rightarrow> (nat \<times> 'a) list \<Rightarrow> (nat \<times> 'a) list" where
  "delete_by_id uuid objects = filter (\<lambda>obj. fst obj \<noteq> uuid) objects"

definition update_by_id :: "nat \<Rightarrow> 'a \<Rightarrow> (nat \<times> 'a) list \<Rightarrow> (nat \<times> 'a) list" where
  "update_by_id uuid properties objects =
     map (\<lambda>obj. if fst obj = uuid then (uuid, properties) else obj) objects"

definition find_existing_document :: "index \<Rightarrow> string \<Rightarrow> string \<Rightarrow> nat option" where
  \<comment> \<open>the identifier of the object found, by Dropbox id first and by content hash otherwise\<close>
  "find_existing_document s dbx_id hash =
     (if \<not> client s then None
      else case (if dbx_id \<noteq> []
                 then fetch_objects (\<lambda>d. dropbox_id d = dbx_id) 1 (documents s) else []) of
             obj # _ \<Rightarrow> Some (fst obj)
           | [] \<Rightarrow>
               (case fetch_objects (\<lambda>d. content_hash d = hash) 1 (documents s) of
                  obj # _ \<Rightarrow> Some (fst obj)
                | [] \<Rightarrow> None))"

definition delete_document_chunks :: "index \<Rightarrow> string \<Rightarrow> index" where
  "delete_document_chunks s dbx_id =
     (let response = fetch_objects (\<lambda>c. parent_dropbox_id c = dbx_id) 1000 (chunks s)
      in s\<lparr>chunks := foldl (\<lambda>objects obj. delete_by_id (fst obj) objects) (chunks s) response\<rparr>)"

definition prepare_document_for_weaviate :: "document \<Rightarrow> string \<Rightarrow> document_object" where
  "prepare_document_for_weaviate d hash =
     \<lparr>dropbox_id = doc_id d, name = doc_name d, file_path = doc_file_path d,
      content = doc_content d, content_hash = hash\<rparr>"

definition insert_chunk :: "index \<Rightarrow> chunk_object \<Rightarrow> index" where
  "insert_chunk s c = s\<lparr>chunks := chunks s @ [(next_uuid s, c)], next_uuid := Suc (next_uuid s)\<rparr>"

definition chunk_objects :: "document \<Rightarrow> string list \<Rightarrow> chunk_object list" where
  \<comment> \<open>the properties written for the chunks of a document, in the order of \<open>enumerate\<close>\<close>
  "chunk_objects d cs =
     map (\<lambda>(idx, chunk).
            \<lparr>parent_dropbox_id = doc_id d, parent_name = doc_name d, chunk_index = idx,
             total_chunks = length cs, chunk_content = chunk, chunk_size = length chunk,
             chunk_file_path = doc_file_path d\<rparr>)
         (zip [0 ..< length cs] cs)"

definition chunking_input :: "document \<Rightarrow> string" where
  \<comment> \<open>\<open>document.get('full_text') or document.get('content', '')\<close>\<close>
  "chunking_input d =
     (case doc_full_text d of
        Some t \<Rightarrow> (if t \<noteq> [] then t else doc_content d)
      | None \<Rightarrow> doc_content d)"

definition index_document_chunks :: "index \<Rightarrow> document \<Rightarrow> index option" where
  "index_document_chunks s d =
     (case chunk_text (chunking_input d) 1000 200 of
        None \<Rightarrow> None
      | Some cs \<Rightarrow> Some (foldl insert_chunk s (chunk_objects d cs)))"

text \<open>
  \<open>index_document\<close> takes the digest function (SHA-256 in the source) as the parameter
  \<open>sha\<close>. Its value is the returned flag and the store afterwards; \<open>None\<close> is a call that
  does not return.
\<close>

definition index_document ::
  "(string \<Rightarrow> string) \<Rightarrow> index \<Rightarrow> document \<Rightarrow> bool \<Rightarrow> (bool \<times> index) option" where
  "index_document sha s d enable_chunking =
     (if \<not> client s then Some (False, s)
      else
        let hash = sha (doc_content d);
            existing = find_existing_document s (doc_id d) hash;
            s1 = (if existing \<noteq> None \<and> enable_chunking
                  then delete_document_chunks s (doc_id d) else s);
            weaviate_doc = prepare_document_for_weaviate d hash;
            s2 = (case existing of
                    Some uuid \<Rightarrow> s1\<lparr>documents := update_by_id uuid weaviate_doc (documents s1)\<rparr>
                  | None \<Rightarrow> s1\<lparr>documents := documents s1 @ [(next_uuid s1, weaviate_doc)],
                                next_uuid := Suc (next_uuid s1)\<rparr>)
        in if enable_chunking \<and> length (doc_content d) > 500
           then (case index_document_chunks s2 d of
                   None \<Rightarrow> None
                 | Some s3 \<Rightarrow> Some (True, s3))
           else Some (True, s2))"

definition delete_document :: "index \<Rightarrow> string \<Rightarrow> bool \<times> index" where
  "delete_document s dbx_id =
     (if \<not> client s then (False, s)
      else
        let s1 = delete_document_chunks s dbx_id
        in case find_existing_document s1 dbx_id [] of
             None \<Rightarrow> (True, s1)
           | Some uuid \<Rightarrow> (True, s1\<lparr>documents := delete_by_id uuid (documents s1)\<rparr>))"

definition document_exists :: "index \<Rightarrow> string \<Rightarrow> bool" where
  "document_exists s dbx_id = (find_existing_document s dbx_id [] \<noteq> None)"


section \<open>Document store connector (dropbox\_client.py)\<close>

datatype entry_class = FileMetadata | FolderMetadata | DeletedMetadata

record entry =
  entry_class :: entry_class
  entry_name :: string
  entry_path_display :: string
  entry_id :: string

definition entry_to_dict :: "entry \<Rightarrow> metadata" where
  "entry_to_dict e =
     \<lparr>md_name = entry_name e, md_path_display = entry_path_display e, md_id = entry_id e,
      md_type = (case entry_class e of
                   FileMetadata \<Rightarrow> ''file''
                 | FolderMetadata \<Rightarrow> ''folder''
                 | DeletedMetadata \<Rightarrow> ''deleted''),
      md_change_type = None\<rparr>"

definition determine_change_type :: "entry \<Rightarrow> string" where
  "determine_change_type e =
     (case entry_class e of
        DeletedMetadata \<Rightarrow> ''deleted''
      | FileMetadata \<Rightarrow> ''added_or_modified''
      | FolderMetadata \<Rightarrow> ''folder_change'')"

definition change_data :: "entry \<Rightarrow> metadata" where
  "change_data e = (entry_to_dict e)\<lparr>md_change_type := Some (determine_change_type e)\<rparr>"

text \<open>
  The remote service, as the client sees it behind its retrying wrappers. A call returns a
  listing or raises: \<open>Reset\<close> is the API error whose \<open>is_reset()\<close> holds (the cursor has
  expired), \<open>Api_error\<close> any other API error, \<open>Other_error\<close> any other exception. A listing
  is a page of entries with its cursor, and either \<open>has_more\<close> is false (\<open>Last_page\<close>), or
  continuing from the cursor returns the rest (\<open>Next_page\<close>), or continuing raises
  (\<open>Failed_page\<close>). Listings are finite.
\<close>

datatype failure = Reset | Api_error | Other_error

datatype listing =
    Last_page "entry list" string
  | Next_page "entry list" string listing
  | Failed_page "entry list" string failure

record remote =
  files_list_folder :: "string \<Rightarrow> failure + listing"
  files_list_folder_continue :: "string \<Rightarrow> failure + listing"
  files_download :: "string \<Rightarrow> string option"

record dropbox_client =
  connected :: bool
  cursors :: "string \<Rightarrow> string option"

fun drain :: "listing \<Rightarrow> entry list \<times> (failure + string)" where
  \<comment> \<open>the entries yielded while following \<open>has_more\<close>, and the last cursor or the exception
      that ended the loop\<close>
  "drain (Last_page es c) = (es, Inr c)"
| "drain (Next_page es c l) = (case drain l of (es', r) \<Rightarrow> (es @ es', r))"
| "drain (Failed_page es c f) = (es, Inl f)"

definition cursor_key :: "string \<Rightarrow> string" where
  \<comment> \<open>\<open>path or "root"\<close>\<close>
  "cursor_key path = (if path \<noteq> [] then path else ''root'')"

text \<open>
  A generator is modelled by the list of what it yields together with the state it leaves
  behind. \<open>list_folder\<close> catches every exception itself.
\<close>

definition list_folder :: "remote \<Rightarrow> dropbox_client \<Rightarrow> string \<Rightarrow> metadata list \<times> dropbox_client" where
  "list_folder R c path =
     (if \<not> connected c then ([], c)
      else case files_list_folder R path of
             Inl e \<Rightarrow> ([], c)
           | Inr l \<Rightarrow>
               (case drain l of
                  (es, Inr cur) \<Rightarrow>
                    (map entry_to_dict es, c\<lparr>cursors := (cursors c)(cursor_key path \<mapsto> cur)\<rparr>)
                | (es, Inl e) \<Rightarrow> (map entry_to_dict es, c)))"

text \<open>
  \<open>list_folder_changes\<close> catches API errors only; the flag in its value says that another
  exception left the generator, after the items yielded before it.
\<close>

definition on_continue_failure ::
  "remote \<Rightarrow> dropbox_client \<Rightarrow> string \<Rightarrow> metadata list \<Rightarrow> failure
     \<Rightarrow> metadata list \<times> bool \<times> dropbox_client" where
  "on_continue_failure R c path yielded e =
     (case e of
        Reset \<Rightarrow>
          (case list_folder R (c\<lparr>cursors := (cursors c)(cursor_key path := None)\<rparr>) path of
             (ms, c') \<Rightarrow> (yielded @ ms, False, c'))
      | Api_error \<Rightarrow> (yielded, False, c)
      | Other_error \<Rightarrow> (yielded, True, c))"

definition list_folder_changes ::
  "remote \<Rightarrow> dropbox_client \<Rightarrow> string \<Rightarrow> metadata list \<times> bool \<times> dropbox_client" where
  "list_folder_changes R c path =
     (if \<not> connected c then ([], False, c)
      else case cursors c (cursor_key path) of
             None \<Rightarrow> (case list_folder R c path of (ms, c') \<Rightarrow> (ms, False, c'))
           | Some cursor \<Rightarrow>
               (if cursor = [] then (case list_folder R c path of (ms, c') \<Rightarrow> (ms, False, c'))
                else case files_list_folder_continue R cursor of
                       Inl e \<Rightarrow> on_continue_failure R c path [] e
                     | Inr l \<Rightarrow>
                         (case drain l of
                            (es, Inr cur) \<Rightarrow>
                              (map change_data es, False,
                               c\<lparr>cursors := (cursors c)(cursor_key path \<mapsto> cur)\<rparr>)
                          | (es, Inl e) \<Rightarrow>
                              on_continue_failure R c path (map change_data es) e)))"

definition download_file :: "remote \<Rightarrow> dropbox_client \<Rightarrow> string \<Rightarrow> string option" where
  "download_file R c path = (if \<not> connected c then None else files_download R path)"


section \<open>Incremental sync engine (incremental\_sync.py)\<close>


record incremental_stats =
  changes_processed :: nat
  files_added :: nat
  files_modified :: nat
  files_deleted :: nat
  files_failed :: nat
  error :: bool

definition should_index_file :: "string \<Rightarrow> bool" where
  "should_index_file path =
     (lower (path_suffix path) \<in> set [''.pdf'', ''.txt'', ''.md'', ''.csv'', ''.doc'', ''.docx''])"

definition process_and_index_file ::
  "extractors \<Rightarrow> (string \<Rightarrow> string) \<Rightarrow> remote \<Rightarrow> dropbox_client \<Rightarrow> index \<Rightarrow> metadata
     \<Rightarrow> (bool \<times> index) option" where
  "process_and_index_file E sha R c s file_metadata =
     (case download_file R c (md_path_display file_metadata) of
        None \<Rightarrow> Some (False, s)
      | Some downloaded \<Rightarrow>
          (if downloaded = [] then Some (False, s)
           else case process_document E downloaded file_metadata of
                  None \<Rightarrow> Some (False, s)
                | Some d \<Rightarrow> index_document sha s d True))"

definition remove_from_index :: "index \<Rightarrow> metadata \<Rightarrow> bool \<times> index" where
  "remove_from_index s file_metadata =
     (if md_id file_metadata \<noteq> [] then delete_document s (md_id file_metadata) else (False, s))"

definition file_exists_in_index :: "index \<Rightarrow> string \<Rightarrow> bool" where
  "file_exists_in_index s file_id = document_exists s file_id"



fun incremental_loop ::
  "extractors \<Rightarrow> (string \<Rightarrow> string) \<Rightarrow> remote \<Rightarrow> dropbox_client \<Rightarrow> metadata list
     \<Rightarrow> incremental_stats \<times> index \<Rightarrow> (incremental_stats \<times> index) option" where
  "incremental_loop E sha R c [] st = Some st"
| "incremental_loop E sha R c (change # rest) (stats, s) =
     (let change_type = (case md_change_type change of Some t \<Rightarrow> t | None \<Rightarrow> ''unknown'')
      in if change_type = ''deleted''
         then incremental_loop E sha R c rest
                (stats\<lparr>files_deleted := files_deleted stats + 1,
                        changes_processed := changes_processed stats + 1\<rparr>,
                 snd (remove_from_index s change))
         else if change_type = ''added_or_modified''
         then (if \<not> should_index_file (md_path_display change)
               then incremental_loop E sha R c rest (stats, s)
               else case process_and_index_file E sha R c s change of
                      None \<Rightarrow> None
                    | Some (success, s') \<Rightarrow>
                        incremental_loop E sha R c rest
                          ((if success
                            then (if file_exists_in_index s' (md_id change)
                                  then stats\<lparr>files_modified := files_modified stats + 1\<rparr>
                                  else stats\<lparr>files_added := files_added stats + 1\<rparr>)
                            else stats\<lparr>files_failed := files_failed stats + 1\<rparr>)
                             \<lparr>changes_processed := changes_processed stats + 1\<rparr>,
                           s'))
         else incremental_loop E sha R c rest
                (stats\<lparr>changes_processed := changes_processed stats + 1\<rparr>, s))"

definition perform_incremental_sync ::
  "extractors \<Rightarrow> (string \<Rightarrow> string) \<Rightarrow> remote \<Rightarrow> string \<Rightarrow> dropbox_client \<times> index
     \<Rightarrow> (incremental_stats \<times> dropbox_client \<times> index) option" where
  "perform_incremental_sync E sha R root_path st =
     (case st of (c, s) \<Rightarrow>
        (case list_folder_changes R c root_path of (changes, raised, c') \<Rightarrow>
           (case incremental_loop E sha R c changes
                   (\<lparr>changes_processed = 0, files_added = 0, files_modified = 0,
                     files_deleted = 0, files_failed = 0, error = False\<rparr>, s) of
              None \<Rightarrow> None
            | Some (stats, s') \<Rightarrow> Some (stats\<lparr>error := raised\<rparr>, c', s'))))"


section \<open>Search executor, fusion and ranking (search\_orchestrator.py)\<close>

text \<open>
  A hit from the Document collection, or a document synthesised from chunk hits, and later a
  ranked result. \<open>r_uuid\<close> is the key \<open>_id\<close>, \<open>r_score\<close> the key \<open>_score\<close>. A chunk hit
  carries the properties of its parent. The properties that fusion and ranking do not read
  (vendor name, file size, dates, chunk position) are left out.
\<close>

record search_result =
  r_dropbox_id :: "string option"
  r_uuid :: "string option"
  r_name :: "string option"
  r_file_path :: "string option"
  r_project_name :: "string option"
  r_contractor :: "string option"
  r_document_type :: "string option"
  r_content :: "string option"
  r_score :: "real option"
  r_matched_chunks :: "nat option"
  r_from_chunks :: bool
  heuristic_score :: "nat option"

record chunk_result =
  c_parent_dropbox_id :: "string option"
  c_parent_name :: "string option"
  c_file_path :: "string option"
  c_project_name :: "string option"
  c_contractor :: "string option"
  c_document_type :: "string option"
  c_content :: "string option"
  c_score :: "real option"

definition or_else :: "string option \<Rightarrow> string option \<Rightarrow> string option" where
  \<comment> \<open>Python's \<open>a or b\<close>\<close>
  "or_else a b = (if truthy a then a else b)"

definition number_or_zero :: "'a::zero option \<Rightarrow> 'a" where
  \<comment> \<open>\<open>d.get(key, 0)\<close>\<close>
  "number_or_zero v = (case v of Some x \<Rightarrow> x | None \<Rightarrow> 0)"

definition sorted_desc :: "('a \<Rightarrow> 'k::linorder) \<Rightarrow> 'a list \<Rightarrow> 'a list" where
  \<comment> \<open>\<open>sort(key=..., reverse=True)\<close>: descending, items with equal keys in their former
      order\<close>
  "sorted_desc key xs = rev (sort_key key (rev xs))"

definition add_chunk ::
  "(string \<times> chunk_result list) list \<Rightarrow> chunk_result \<Rightarrow> (string \<times> chunk_result list) list" where
  "add_chunk groups chunk =
     (case c_parent_dropbox_id chunk of
        None \<Rightarrow> groups
      | Some parent_id \<Rightarrow>
          (if parent_id = [] then groups
           else if parent_id \<in> fst ` set groups
           then map (\<lambda>(k, chunk_list). if k = parent_id then (k, chunk_list @ [chunk])
                                         else (k, chunk_list)) groups
           else groups @ [(parent_id, [chunk])]))"

definition chunks_by_parent :: "chunk_result list \<Rightarrow> (string \<times> chunk_result list) list" where
  \<comment> \<open>the dictionary from parent id to its chunk hits, in insertion order\<close>
  "chunks_by_parent chunk_hits = foldl add_chunk [] chunk_hits"

definition synthetic_doc :: "string \<Rightarrow> chunk_result \<Rightarrow> nat \<Rightarrow> search_result" where
  "synthetic_doc parent_id best_chunk matched =
     \<lparr>r_dropbox_id = Some parent_id, r_uuid = None, r_name = c_parent_name best_chunk,
      r_file_path = c_file_path best_chunk, r_project_name = c_project_name best_chunk,
      r_contractor = c_contractor best_chunk, r_document_type = c_document_type best_chunk,
      r_content = c_content best_chunk, r_score = Some (number_or_zero (c_score best_chunk)),
      r_matched_chunks = Some matched, r_from_chunks = True, heuristic_score = None\<rparr>"

fun add_chunk_documents ::
  "string list \<Rightarrow> (string \<times> chunk_result list) list \<Rightarrow> search_result list option" where
  \<comment> \<open>the loop over the groups; \<open>None\<close> is the \<open>IndexError\<close> of \<open>chunk_list[0]\<close>\<close>
  "add_chunk_documents seen_ids [] = Some []"
| "add_chunk_documents seen_ids ((parent_id, chunk_list) # rest) =
     (if parent_id \<in> set seen_ids then add_chunk_documents seen_ids rest
      else case sorted_desc (\<lambda>c. number_or_zero (c_score c)) chunk_list of
             [] \<Rightarrow> None
           | best_chunk # _ \<Rightarrow>
               map_option ((#) (synthetic_doc parent_id best_chunk (length chunk_list)))
                 (add_chunk_documents (parent_id # seen_ids) rest))"

definition result_id :: "search_result \<Rightarrow> string option" where
  \<comment> \<open>\<open>doc.get('dropbox_id') or doc.get('_id')\<close>\<close>
  "result_id doc = or_else (r_dropbox_id doc) (r_uuid doc)"

definition combine_results ::
  "search_result list \<Rightarrow> chunk_result list \<Rightarrow> search_result list option" where
  "combine_results document_hits chunk_hits =
     (let kept = filter (\<lambda>doc. truthy (result_id doc)) document_hits;
          seen_ids = map (\<lambda>doc. the (result_id doc)) kept
      in map_option ((@) kept) (add_chunk_documents seen_ids (chunks_by_parent chunk_hits)))"

text \<open>
  Ranking reads \<open>str(result)\<close>, the printed form of the dictionary; it is the parameter
  \<open>str_of\<close>.
\<close>

definition entity_overlap :: "(search_result \<Rightarrow> string) \<Rightarrow> SearchEntities \<Rightarrow> search_result \<Rightarrow> nat" where
  "entity_overlap str_of entities r =
       (if truthy (project entities)
           \<and> contains (lower (the (project entities))) (lower (str_of r)) then 3 else 0)
     + (if truthy (contractor entities)
           \<and> contains (lower (the (contractor entities))) (lower (str_of r)) then 3 else 0)
     + (if truthy (document_type entities)
           \<and> contains (lower (the (document_type entities))) (lower (str_of r)) then 2 else 0)
     + length (filter (\<lambda>kw. contains (lower kw) (lower (str_of r))) (keywords_list entities))"

fun unique_results ::
  "(search_result \<Rightarrow> string) \<Rightarrow> SearchEntities \<Rightarrow> string list \<Rightarrow> search_result list
     \<Rightarrow> search_result list" where
  "unique_results str_of entities seen_paths [] = []"
| "unique_results str_of entities seen_paths (r # rest) =
     (let path = (case r_file_path r of Some p \<Rightarrow> p | None \<Rightarrow> [])
      in if path \<noteq> [] \<and> path \<notin> set seen_paths
         then r\<lparr>heuristic_score := Some (entity_overlap str_of entities r)\<rparr>
                # unique_results str_of entities (path # seen_paths) rest
         else unique_results str_of entities seen_paths rest)"

definition rank_results ::
  "(search_result \<Rightarrow> string) \<Rightarrow> search_result list \<Rightarrow> SearchEntities \<Rightarrow> search_result list" where
  "rank_results str_of found entities =
     sorted_desc (\<lambda>x. (number_or_zero (r_score x), number_or_zero (heuristic_score x)))
       (unique_results str_of entities [] found)"

text \<open>
  The queries against the two collections, entity discovery and the language-model calls of
  the extractor are outside the repository's logic; they are parameters.
\<close>

record search_backend =
  search_documents :: "strategy \<Rightarrow> search_result list"
  search_chunks :: "strategy \<Rightarrow> chunk_result list"
  discover_from_weaviate :: "string list \<times> string list"

record search_context =
  last_search :: "string option"
  last_document :: "string option"
  last_entities :: "SearchEntities option"

record entity_extractor =
  extract_entities :: "string \<Rightarrow> search_context \<Rightarrow> SearchEntities"
  extract_with_examples :: "string \<Rightarrow> string list \<times> string list \<Rightarrow> SearchEntities"
  refine_with_feedback :: "string \<Rightarrow> SearchEntities \<Rightarrow> SearchEntities"

record search_response =
  success :: bool
  results :: "search_result list"
  entities_extracted :: SearchEntities
  strategies_tried :: nat
  total_found :: nat

definition execute_search :: "search_backend \<Rightarrow> strategy \<Rightarrow> search_result list" where
  "execute_search B st =
     (case combine_results (search_documents B st) (search_chunks B st) of
        None \<Rightarrow> []
      | Some combined \<Rightarrow> combined)"

definition search ::
  "entity_extractor \<Rightarrow> search_backend \<Rightarrow> (search_result \<Rightarrow> string) \<Rightarrow> search_context
     \<Rightarrow> string \<Rightarrow> int \<Rightarrow> search_response \<times> search_context" where
  "search X B str_of ctx q max_results =
     (let discovered = discover_from_weaviate B;
          entities = extract_with_examples X q discovered;
          search_strategies = build_search_strategies entities;
          first_pass = concat (map (execute_search B) search_strategies);
          found = (if first_pass = []
                   then concat (map (execute_search B)
                                  (take 2 (build_search_strategies
                                             (refine_with_feedback X q entities))))
                   else first_pass);
          ranked_results = rank_results str_of found entities
      in (\<lparr>success = (ranked_results \<noteq> []),
           results = slice ranked_results 0 max_results,
           entities_extracted = entities,
           strategies_tried = length search_strategies,
           total_found = length found\<rparr>,
          (case ranked_results of
             [] \<Rightarrow> ctx
           | first # _ \<Rightarrow> ctx\<lparr>last_search := Some q, last_document := r_name first,
                            last_entities := Some entities\<rparr>)))"

definition inherit_context :: "SearchEntities \<Rightarrow> SearchEntities \<Rightarrow> SearchEntities" where
  \<comment> \<open>project and contractor of the previous turn, where this turn has none\<close>
  "inherit_context entities previous =
     (let e1 = (if \<not> truthy (project entities) \<and> truthy (project previous)
                then entities\<lparr>project := project previous\<rparr> else entities)
      in if \<not> truthy (contractor e1) \<and> truthy (contractor previous)
         then e1\<lparr>contractor := contractor previous\<rparr> else e1)"

definition follow_up_entities ::
  "entity_extractor \<Rightarrow> search_context \<Rightarrow> string \<Rightarrow> SearchEntities" where
  \<comment> \<open>the local variable \<open>entities\<close> of \<open>search_with_context\<close> when it reaches its last line\<close>
  "follow_up_entities X ctx q =
     (let entities = extract_entities X q ctx
      in if contains ''that'' (lower q) \<or> contains ''it'' (lower q)
         then (case last_entities ctx of
                 Some previous \<Rightarrow> inherit_context entities previous
               | None \<Rightarrow> entities)
         else entities)"

definition search_with_context ::
  "entity_extractor \<Rightarrow> search_backend \<Rightarrow> (search_result \<Rightarrow> string) \<Rightarrow> search_context
     \<Rightarrow> string \<Rightarrow> search_response \<times> search_context" where
  "search_with_context X B str_of ctx q =
     (let entities = follow_up_entities X ctx q
      in search X B str_of ctx q 10)"


section \<open>Structured knowledge-base classifier (atomic\_document\_agent.py)\<close>

text \<open>
  An object of the Company collection and a result of the classifier. The contact
  properties, which are copied from the one to the other, are left out. \<open>res_score\<close> is the
  key \<open>score\<close>, which only the results of the hybrid searches carry.
\<close>

record company_object =
  company :: string
  services :: "string list"
  hired :: bool

record company_result =
  res_company :: string
  res_services :: "string list"
  res_hired :: bool
  res_score :: "real option"

datatype QueryType = LIST_ALL | FIND_BY_PROJECT | GET_CONTACT | GENERAL

definition service_variations :: "string \<Rightarrow> string list" where
  "service_variations service =
     (if lower service \<in> set [''electrical'', ''electric'']
      then [''electrical'', ''electric'', ''electrician'']
      else if lower service \<in> set [''concrete'', ''foundation'']
      then [''concrete'', ''foundation'', ''concrete & foundation'']
      else if lower service \<in> set [''glass'', ''windows'', ''glazing'']
      then [''glass'', ''windows'', ''glazing'', ''windows labor'', ''mirrors'']
      else if lower service \<in> set [''roofing'', ''roof'']
      then [''roofing'', ''roof'', ''roof labor'', ''roof material'']
      else [])"

definition service_match :: "string \<Rightarrow> company_object \<Rightarrow> bool" where
  "service_match term obj = list_ex (\<lambda>svc. contains (lower term) (lower svc)) (services obj)"

fun scan_objects ::
  "string \<Rightarrow> company_object list \<Rightarrow> company_result list \<times> string list
     \<Rightarrow> company_result list \<times> string list" where
  \<comment> \<open>the loop over the fetched objects for one term; the state is \<open>all_results\<close> and
      \<open>seen_companies\<close>\<close>
  "scan_objects term [] st = st"
| "scan_objects term (obj # rest) (all_results, seen_companies) =
     (if service_match term obj \<and> company obj \<notin> set seen_companies
      then scan_objects term rest
             (all_results @ [\<lparr>res_company = company obj, res_services = services obj,
                               res_hired = hired obj, res_score = None\<rparr>],
              company obj # seen_companies)
      else scan_objects term rest (all_results, seen_companies))"

text \<open>
  \<open>list(set(search_terms))\<close> lists the distinct terms in an order the language leaves open;
  the order is the parameter \<open>set_order\<close>. The directory is the Company collection, which
  every term fetches anew with the given limit.
\<close>

definition search_companies_with_filter ::
  "(string list \<Rightarrow> string list) \<Rightarrow> company_object list \<Rightarrow> string \<Rightarrow> nat \<Rightarrow> company_result list" where
  "search_companies_with_filter set_order directory service limit =
     (let search_terms = set_order (lower service # service_variations service);
          all_results =
            fst (foldl (\<lambda>st term. scan_objects term (take limit directory) st) ([], [])
                   search_terms)
      in sorted_desc res_hired all_results)"

text \<open>
  The other three branches of \<open>search\<close> query the store by hybrid search and through the
  language model; what they return is the parameter \<open>other_strategy\<close>. Reranking is an
  external service. The value of \<open>kb_search\<close> is what \<open>search\<close> hands to
  \<open>format_context\<close>, or which of its two fixed answers it returns instead.
\<close>

record kb_collaborators =
  set_order :: "string list \<Rightarrow> string list"
  voyage_client :: bool
  rerank_results :: "string \<Rightarrow> company_result list \<Rightarrow> nat \<Rightarrow> company_result list"
  other_strategy :: "QueryType \<Rightarrow> string \<Rightarrow> company_result list"

datatype search_outcome =
    No_relevant_information
  | Below_score_threshold
  | Context "company_result list"

definition filter_by_score_threshold :: "company_result list \<Rightarrow> real \<Rightarrow> company_result list" where
  "filter_by_score_threshold found min_score =
     (case found of
        [] \<Rightarrow> found
      | first # _ \<Rightarrow>
          (if res_score first = None then found
           else filter (\<lambda>r. number_or_zero (res_score r) \<ge> min_score) found))"

definition list_all_results ::
  "kb_collaborators \<Rightarrow> company_object list \<Rightarrow> string \<Rightarrow> company_result list" where
  \<comment> \<open>the \<open>LIST_ALL\<close> branch of stage 2\<close>
  "list_all_results K directory service =
     (if service \<noteq> []
      then (let found = search_companies_with_filter (set_order K) directory service 1000
            in if found = []
               then (if contains ''supplier'' (lower service)
                     then search_companies_with_filter (set_order K) directory
                            (strip (replace ''supplier'' [] (lower service))) 1000
                     else if contains ''contractor'' (lower service)
                     then search_companies_with_filter (set_order K) directory
                            (strip (replace ''contractor'' [] (lower service))) 1000
                     else found)
               else found)
      else [])"

definition kb_search ::
  "kb_collaborators \<Rightarrow> company_object list \<Rightarrow> QueryType \<Rightarrow> string \<Rightarrow> string \<Rightarrow> real
     \<Rightarrow> int option \<Rightarrow> search_outcome" where
  "kb_search K directory query_type service q min_score max_results =
     (let found = (if query_type = LIST_ALL then list_all_results K directory service
                   else other_strategy K query_type q)
      in if found = [] then No_relevant_information
         else
           let reranked =
                 (if voyage_client K \<and> query_type \<noteq> LIST_ALL
                  then rerank_results K q found
                         (nat (min ((case max_results of
                                       None \<Rightarrow> 5
                                     | Some k \<Rightarrow> if k = 0 then 5 else k) * 2)
                                   (int (length found))))
                  else found);
               scored = (if min_score > 0 then filter_by_score_threshold reranked min_score
                         else reranked)
           in if min_score > 0 \<and> scored = [] then Below_score_threshold
              else if query_type \<noteq> LIST_ALL
                      \<and> (case max_results of
                            None \<Rightarrow> False
                          | Some k \<Rightarrow> k \<noteq> 0 \<and> int (length scored) > k)
              then Context (slice (if list_ex (\<lambda>r. res_score r \<noteq> None) scored
                                   then sorted_desc (\<lambda>r. number_or_zero (res_score r)) scored
                                   else scored)
                              0 (the max_results))
              else Context scored)"

section \<open>Observations and sample inputs\<close>

definition w9_entities :: SearchEntities where
  "w9_entities =
     \<lparr>project = None, contractor = None, document_type = None, keywords_list = [''W9''],
      date_range = None, amount_range = None, specific_file = None\<rparr>"



definition sample_extractors :: extractors where
  "sample_extractors =
     \<lparr>extract_pdf_text = (\<lambda>b. None), extract_docx_text = (\<lambda>b. None),
      extract_xlsx_text = (\<lambda>b. None), decode_utf8 = (\<lambda>b. b)\<rparr>"

definition sample_sha :: "string \<Rightarrow> string" where
  "sample_sha t = t"

definition empty_index :: index where
  "empty_index = \<lparr>client = True, documents = [], chunks = [], next_uuid = 0\<rparr>"




definition count_chunks :: "index \<Rightarrow> string \<Rightarrow> nat" where
  "count_chunks s dbx_id = length (filter (\<lambda>obj. parent_dropbox_id (snd obj) = dbx_id) (chunks s))"

definition huge_text :: string where
  "huge_text = replicate 801000 (CHR ''x'')"

definition huge_document :: document where
  "huge_document =
     \<lparr>doc_id = ''id:1'', doc_name = ''notes.txt'', doc_file_path = ''/docs/notes.txt'',
      doc_content = replicate 50000 (CHR ''x''), doc_full_text = Some huge_text\<rparr>"

definition huge_chunks :: "string list" where
  "huge_chunks = replicate 1001 (replicate 1000 (CHR ''x''))"

definition large_index :: index where
  "large_index =
     \<lparr>client = True,
      documents = [(0, prepare_document_for_weaviate huge_document
                         (sample_sha (doc_content huge_document)))],
      chunks = zip [1 ..< 1002] (chunk_objects huge_document huge_chunks),
      next_uuid = 1002\<rparr>"

definition short_document :: document where
  "short_document =
     \<lparr>doc_id = ''id:1'', doc_name = ''notes.txt'', doc_file_path = ''/docs/notes.txt'',
      doc_content = ''short'', doc_full_text = Some ''short''\<rparr>"

definition after_shrinking_update :: index where
  "after_shrinking_update =
     (delete_document_chunks large_index ''id:1'')
       \<lparr>documents := [(0, prepare_document_for_weaviate short_document (sample_sha ''short''))]\<rparr>"

definition after_second_indexing :: index where
  "after_second_indexing =
     foldl insert_chunk
       ((delete_document_chunks large_index ''id:1'')
          \<lparr>documents := [(0, prepare_document_for_weaviate huge_document
                                 (sample_sha (doc_content huge_document)))]\<rparr>)
       (chunk_objects huge_document huge_chunks)"

definition notes_entry :: entry where
  "notes_entry =
     \<lparr>entry_class = FileMetadata, entry_name = ''notes.txt'',
      entry_path_display = ''/docs/notes.txt'', entry_id = ''id:1''\<rparr>"

definition synced_client :: dropbox_client where
  "synced_client = \<lparr>connected = True, cursors = [''/docs'' \<mapsto> ''cursor-1'']\<rparr>"

definition feed_remote :: remote where
  "feed_remote =
     \<lparr>files_list_folder = (\<lambda>path. Inr (Last_page [notes_entry] ''cursor-2'')),
      files_list_folder_continue = (\<lambda>cursor. Inr (Last_page [notes_entry] ''cursor-2'')),
      files_download = (\<lambda>path. Some ''hello'')\<rparr>"


definition notes_index :: index where
  "notes_index =
     \<lparr>client = True,
      documents = [(0, \<lparr>dropbox_id = ''id:1'', name = ''notes.txt'',
                        file_path = ''/docs/notes.txt'', content = ''hello'',
                        content_hash = sample_sha ''hello''\<rparr>)],
      chunks = [],
      next_uuid = 1\<rparr>"

definition follow_up_query :: string where
  "follow_up_query = ''show me the invoice for that''"

definition mitchell_entities :: SearchEntities where
  "mitchell_entities =
     \<lparr>project = Some ''Mitchell'', contractor = None, document_type = None,
      keywords_list = [], date_range = None, amount_range = None, specific_file = None\<rparr>"

definition invoice_entities :: SearchEntities where
  "invoice_entities =
     \<lparr>project = None, contractor = None, document_type = Some ''invoice'',
      keywords_list = [], date_range = None, amount_range = None, specific_file = None\<rparr>"

definition previous_context :: search_context where
  "previous_context =
     \<lparr>last_search = Some ''Mitchell documents'', last_document = Some ''permit.pdf'',
      last_entities = Some mitchell_entities\<rparr>"

definition sample_extractor :: entity_extractor where
  "sample_extractor =
     \<lparr>extract_entities = (\<lambda>q ctx. invoice_entities),
      extract_with_examples = (\<lambda>q discovered. invoice_entities),
      refine_with_feedback = (\<lambda>q entities. entities)\<rparr>"

definition mitchell_invoice :: search_result where
  "mitchell_invoice =
     \<lparr>r_dropbox_id = None, r_uuid = Some ''uuid-1'', r_name = Some ''invoice.pdf'',
      r_file_path = Some ''/Mitchell/invoice.pdf'', r_project_name = Some ''Mitchell'',
      r_contractor = None, r_document_type = Some ''invoice'', r_content = Some ''Invoice'',
      r_score = Some 0.9, r_matched_chunks = None, r_from_chunks = False,
      heuristic_score = None\<rparr>"

definition sample_backend :: search_backend where
  "sample_backend =
     \<lparr>search_documents = (\<lambda>st. if contains ''Mitchell'' (query st) then [mitchell_invoice] else []),
      search_chunks = (\<lambda>st. []),
      discover_from_weaviate = ([], [])\<rparr>"

definition sample_str_of :: "search_result \<Rightarrow> string" where
  "sample_str_of r = (case r_name r of Some n \<Rightarrow> n | None \<Rightarrow> [])"






definition plumbers :: "nat \<Rightarrow> company_object list" where
  "plumbers n =
     map (\<lambda>i. \<lparr>company = ''Plumber '' @ replicate i (CHR ''I''), services = [''plumbing''],
                hired = False\<rparr>)
         [0 ..< n]"

definition glass_company :: company_object where
  "glass_company = \<lparr>company = ''Clear View Glass'', services = [''glass''], hired = True\<rparr>"

definition large_directory :: "company_object list" where
  "large_directory = plumbers 1000 @ [glass_company]"

definition sample_collaborators :: kb_collaborators where
  "sample_collaborators =
     \<lparr>set_order = remdups, voyage_client = False,
      rerank_results = (\<lambda>q found k. take k found),
      other_strategy = (\<lambda>query_type q. [])\<rparr>"

section \<open>Strategy completeness\<close>

lemma replace_dot_W9: "replace ''.'' '''' ''W9'' = ''W9''"
  by (simp add: replace.simps)

lemma strategies_w9:
  "build_search_strategies w9_entities =
     [\<lparr>stype = hybrid, query = ''W9'', alpha = Some 0.5, filters = None\<rparr>,
      \<lparr>stype = hybrid, query = ''W9'', alpha = Some 0.7, filters = None\<rparr>]"
  by (simp add: build_search_strategies_def strategy_terms_def build_filters_def
      w9_entities_def truthy_def isdigit_def replace_dot_W9)

text \<open>
  C7. For the entities whose only populated field is \<open>keywords = ["W9"]\<close>, the strategy
  builder emits at least one strategy of kind hybrid and no strategy of kind keyword.
\<close>

theorem C7_w9_hybrid_and_no_keyword:
  "hybrid \<in> stype ` set (build_search_strategies w9_entities)
   \<and> keyword \<notin> stype ` set (build_search_strategies w9_entities)"
  by (simp add: strategies_w9)

section \<open>Chunking terminates and snaps to sentence ends\<close>

lemma last_index_None: "last_index x xs = None \<longleftrightarrow> x \<notin> set xs"
  by (induction xs) (auto split: option.splits)

lemma last_index_Some:
  "last_index x xs = Some k \<Longrightarrow>
     k < length xs \<and> xs ! k = x \<and> (\<forall>j. k < j \<and> j < length xs \<longrightarrow> xs ! j \<noteq> x)"
proof (induction xs arbitrary: k)
  case Nil
  then show ?case by simp
next
  case (Cons y ys)
  show ?case
  proof (cases "last_index x ys")
    case None
    with Cons.prems have k: "k = 0" "x = y" by (auto split: if_splits)
    from None have "x \<notin> set ys" by (simp add: last_index_None)
    then have "\<forall>j. 0 < j \<and> j < length (y # ys) \<longrightarrow> (y # ys) ! j \<noteq> x"
      by (auto simp: nth_Cons')
    with k show ?thesis by simp
  next
    case (Some m)
    with Cons.prems have k: "k = Suc m" by simp
    from Cons.IH[OF Some] have m: "m < length ys" "ys ! m = x"
      and later: "\<And>j. m < j \<Longrightarrow> j < length ys \<Longrightarrow> ys ! j \<noteq> x" by auto
    have "(y # ys) ! j \<noteq> x" if "Suc m < j" "j < length (y # ys)" for j
    proof -
      from that obtain j' where j': "j = Suc j'" by (cases j) auto
      with that later[of j'] show ?thesis by simp
    qed
    with m show ?thesis unfolding k by simp
  qed
qed

lemma adjust_index_nonneg: "0 \<le> i \<Longrightarrow> i \<le> int n \<Longrightarrow> adjust_index i n = nat i"
  by (simp add: adjust_index_def)

lemma slice_nonneg:
  "0 \<le> i \<Longrightarrow> i \<le> j \<Longrightarrow> j \<le> int (length s) \<Longrightarrow>
     slice s i j = take (nat j - nat i) (drop (nat i) s)"
  by (simp add: slice_def adjust_index_nonneg Let_def)

lemma rfind_cases:
  assumes "0 \<le> i" "i \<le> j" "j \<le> int (length s)"
  shows "(rfind s c i j = - 1 \<and> (\<forall>r. i \<le> r \<and> r < j \<longrightarrow> s ! nat r \<noteq> c))
       \<or> (i \<le> rfind s c i j \<and> rfind s c i j < j \<and> s ! nat (rfind s c i j) = c
           \<and> (\<forall>r. rfind s c i j < r \<and> r < j \<longrightarrow> s ! nat r \<noteq> c))"
proof -
  define w where "w = take (nat j - nat i) (drop (nat i) s)"
  have sl: "slice s i j = w" using assms unfolding w_def by (rule slice_nonneg)
  have len: "length w = nat j - nat i" using assms by (auto simp: w_def)
  have nth_w: "w ! k = s ! (nat i + k)" if "k < nat j - nat i" for k
    using that assms by (simp add: w_def)
  show ?thesis
  proof (cases "last_index c w")
    case None
    then have notin: "c \<notin> set w" by (simp add: last_index_None)
    have "s ! nat r \<noteq> c" if "i \<le> r" "r < j" for r
    proof -
      have k: "nat r - nat i < nat j - nat i" using that assms by auto
      then have "w ! (nat r - nat i) \<in> set w" using len by simp
      moreover have "w ! (nat r - nat i) = s ! nat r"
        using nth_w[OF k] that assms by (simp add: nat_le_eq_zle)
      ultimately show ?thesis using notin by metis
    qed
    moreover have "rfind s c i j = - 1" using None sl by (simp add: rfind_def)
    ultimately show ?thesis by blast
  next
    case (Some k)
    from last_index_Some[OF Some]
    have k: "k < nat j - nat i" "w ! k = c"
      and later: "\<And>m. k < m \<Longrightarrow> m < nat j - nat i \<Longrightarrow> w ! m \<noteq> c"
      unfolding len by auto
    have rf: "rfind s c i j = i + int k"
      using Some sl assms by (simp add: rfind_def adjust_index_nonneg)
    have "s ! nat (i + int k) = c" using nth_w[OF k(1)] k(2) assms by (simp add: nat_add_distrib)
    moreover have "s ! nat r \<noteq> c" if "i + int k < r" "r < j" for r
    proof -
      have m: "k < nat r - nat i" "nat r - nat i < nat j - nat i" using that assms by auto
      have "w ! (nat r - nat i) = s ! nat r"
        using nth_w[OF m(2)] that assms by simp
      with later[OF m] show ?thesis by simp
    qed
    moreover have "i \<le> i + int k" "i + int k < j" using k(1) assms by auto
    ultimately show ?thesis unfolding rf by blast
  qed
qed


lemma window_end_last:
  assumes "int (length text) \<le> start + 1000"
  shows "window_end text 1000 start = int (length text)"
  using assms by (simp add: window_end_def Let_def)


lemma window_end_no_boundary:
  assumes "0 \<le> start" "start + 1000 < int (length text)"
    and "\<forall>p. start + 500 < p \<and> p < start + 1000 \<longrightarrow> text ! nat p \<noteq> CHR ''.''"
  shows "window_end text 1000 start = start + 1000"
proof -
  have "0 \<le> start" "start \<le> start + 1000" "start + 1000 \<le> int (length text)"
    using assms by auto
  from rfind_cases[OF this, of "CHR ''.''"] assms(3)
  have "\<not> rfind text (CHR ''.'') start (start + 1000) > start + 500"
    using assms(1) by force
  then show ?thesis using assms by (simp add: window_end_def Let_def)
qed

lemma chunk_loop_remainder:
  assumes "0 \<le> start" "start < int (length text)" "int (length text) \<le> start + 1000"
  shows "chunk_loop text 1000 200 start acc =
           Some (if strip (drop (nat start) text) \<noteq> []
                 then acc @ [strip (drop (nat start) text)] else acc)"
proof -
  have e: "window_end text 1000 start = int (length text)"
    using assms by (simp add: window_end_last)
  have sl: "slice text start (int (length text)) = drop (nat start) text"
    using assms by (simp add: slice_nonneg)
  show ?thesis
    using assms
    by (subst chunk_loop.simps, subst chunk_loop.simps) (simp add: e sl Let_def)
qed


lemma chunk_loop_step:
  assumes "start < int (length text)" "window_end text 1000 start < int (length text)"
  shows "chunk_loop text 1000 200 start acc =
           chunk_loop text 1000 200 (window_end text 1000 start - 200)
             (if strip (slice text start (window_end text 1000 start)) \<noteq> []
              then acc @ [strip (slice text start (window_end text 1000 start))] else acc)"
  using assms by (subst chunk_loop.simps) (simp add: Let_def)














section \<open>Index writer: stored content and chunk derivation\<close>


lemma foldl_insert_chunk_documents [simp]:
  "documents (foldl insert_chunk s cs) = documents s"
  by (induction cs arbitrary: s) (simp_all add: insert_chunk_def)

lemma foldl_insert_chunk_client [simp]:
  "client (foldl insert_chunk s cs) = client s"
  by (induction cs arbitrary: s) (simp_all add: insert_chunk_def)



lemma fetch_objects_fst:
  "fetch_objects f n objs = obj # rest \<Longrightarrow> obj \<in> set objs \<and> f (snd obj)"
proof -
  assume a: "fetch_objects f n objs = obj # rest"
  then have "obj \<in> set (take n (filter (\<lambda>obj. f (snd obj)) objs))"
    by (simp add: fetch_objects_def)
  then have "obj \<in> set (filter (\<lambda>obj. f (snd obj)) objs)" by (rule in_set_takeD)
  then show ?thesis by simp
qed

lemma find_existing_document_in_index:
  "find_existing_document s i h = Some u \<Longrightarrow> u \<in> fst ` set (documents s)"
  by (auto simp: find_existing_document_def split: if_splits list.splits dest!: fetch_objects_fst)

lemma update_by_id_member:
  "u \<in> fst ` set objs \<Longrightarrow> (u, p) \<in> set (update_by_id u p objs)"
  by (force simp: update_by_id_def)

lemma length_update_by_id [simp]: "length (update_by_id u p objs) = length objs"
  by (simp add: update_by_id_def)

lemma delete_document_chunks_documents [simp]:
  "documents (delete_document_chunks s i) = documents s"
  by (simp add: delete_document_chunks_def Let_def)

lemma delete_document_chunks_client [simp]:
  "client (delete_document_chunks s i) = client s"
  by (simp add: delete_document_chunks_def Let_def)


lemma suffix_notes: "lower (path_suffix ''/docs/notes.txt'') = ''.txt''"
  by (simp add: path_suffix_def path_name_def lower_def lower_char_def)




section \<open>Chunk cleanup on update\<close>

lemma foldl_delete_by_id:
  "foldl (\<lambda>objects obj. delete_by_id (fst obj) objects) objs resp =
     filter (\<lambda>obj. fst obj \<notin> fst ` set resp) objs"
proof (induction resp arbitrary: objs)
  case Nil
  then show ?case by simp
next
  case (Cons r resp)
  have "foldl (\<lambda>objects obj. delete_by_id (fst obj) objects) objs (r # resp) =
          filter (\<lambda>obj. fst obj \<notin> fst ` set resp) (delete_by_id (fst r) objs)"
    by (simp add: Cons.IH)
  also have "\<dots> = filter (\<lambda>obj. fst obj \<notin> fst ` set (r # resp)) objs"
    unfolding delete_by_id_def filter_filter by (rule filter_cong) auto
  finally show ?case .
qed

lemma filter_not_in_take:
  "distinct xs \<Longrightarrow> filter (\<lambda>x. x \<notin> set (take n xs)) xs = drop n xs"
proof (induction xs arbitrary: n)
  case Nil
  then show ?case by simp
next
  case (Cons x xs)
  show ?case
  proof (cases n)
    case 0
    then show ?thesis by simp
  next
    case (Suc m)
    have "filter (\<lambda>y. y \<noteq> x \<and> y \<notin> set (take m xs)) xs = filter (\<lambda>y. y \<notin> set (take m xs)) xs"
      using Cons.prems by (intro filter_cong) auto
    then show ?thesis using Cons Suc by simp
  qed
qed

lemma delete_document_chunks_count:
  assumes "distinct (map fst (chunks s))"
  shows "count_chunks (delete_document_chunks s i) i = count_chunks s i - 1000"
proof -
  define P where "P = (\<lambda>obj :: nat \<times> chunk_object. parent_dropbox_id (snd obj) = i)"
  define m where "m = filter P (chunks s)"
  have dm: "distinct m" using assms by (simp add: m_def distinct_map)
  have resp: "fetch_objects (\<lambda>c. parent_dropbox_id c = i) 1000 (chunks s) = take 1000 m"
    by (simp add: fetch_objects_def m_def P_def)
  have inj: "fst obj \<in> fst ` set (take 1000 m) \<longleftrightarrow> obj \<in> set (take 1000 m)"
    if "obj \<in> set (chunks s)" for obj
  proof
    assume "fst obj \<in> fst ` set (take 1000 m)"
    then obtain o' where o': "o' \<in> set (take 1000 m)" "fst o' = fst obj" by force
    then have "o' \<in> set (chunks s)" by (auto simp: m_def dest: in_set_takeD)
    with assms that o'(2) have "o' = obj" by (auto simp: distinct_map dest: inj_onD)
    with o'(1) show "obj \<in> set (take 1000 m)" by simp
  qed auto
  have "filter P (chunks (delete_document_chunks s i))
          = filter P (filter (\<lambda>obj. fst obj \<notin> fst ` set (take 1000 m)) (chunks s))"
    by (simp add: delete_document_chunks_def Let_def resp foldl_delete_by_id)
  also have "\<dots> = filter (\<lambda>obj. obj \<notin> set (take 1000 m)) (filter P (chunks s))"
    unfolding filter_filter using inj by (intro filter_cong) auto
  also have "\<dots> = drop 1000 m" unfolding m_def[symmetric] using dm by (rule filter_not_in_take)
  finally show ?thesis by (simp add: count_chunks_def P_def m_def)
qed

lemma strip_replicate:
  "\<not> isspace_char c \<Longrightarrow> strip (replicate n c) = replicate n c"
  by (simp add: strip_def dropWhile_eq_self_iff)

lemma x_not_space: "\<not> isspace_char (CHR ''x'')"
  by (simp add: isspace_char_def)

lemma huge_text_length: "length huge_text = 801000"
  by (simp add: huge_text_def)

lemma huge_text_window:
  assumes "0 \<le> start" "start + 1000 \<le> 801000"
  shows "strip (slice huge_text start (start + 1000)) = replicate 1000 (CHR ''x'')"
proof -
  have "slice huge_text start (start + 1000)
          = take (nat (start + 1000) - nat start) (drop (nat start) huge_text)"
    using assms by (intro slice_nonneg) (simp_all add: huge_text_length)
  also have "\<dots> = replicate 1000 (CHR ''x'')"
  proof -
    have "nat (start + 1000) - nat start = 1000" "nat start \<le> 800000"
      using assms by linarith+
    then show ?thesis by (simp add: huge_text_def)
  qed
  finally show ?thesis by (simp add: strip_replicate x_not_space)
qed

lemma huge_text_loop:
  "k \<le> 1000 \<Longrightarrow>
     chunk_loop huge_text 1000 200 (800000 - 800 * int k) acc =
       Some (acc @ replicate (Suc k) (replicate 1000 (CHR ''x'')))"
proof (induction k arbitrary: acc)
  case 0
  have "drop 800000 huge_text = replicate 1000 (CHR ''x'')" by (simp add: huge_text_def)
  then show ?case
    using chunk_loop_remainder[of 800000 huge_text acc]
    by (simp add: huge_text_length strip_replicate x_not_space)
next
  case (Suc k)
  define start where "start = 800000 - 800 * int (Suc k)"
  have b: "0 \<le> start" "start + 1000 < int (length huge_text)"
    using Suc.prems by (simp_all add: start_def huge_text_length)
  have nodot: "\<forall>p. start + 500 < p \<and> p < start + 1000 \<longrightarrow> huge_text ! nat p \<noteq> CHR ''.''"
    using b by (auto simp: huge_text_def)
  have e: "window_end huge_text 1000 start = start + 1000"
    using window_end_no_boundary[OF b nodot] .
  have w: "strip (slice huge_text start (start + 1000)) = replicate 1000 (CHR ''x'')"
    using b by (intro huge_text_window) (simp_all add: huge_text_length)
  have "chunk_loop huge_text 1000 200 start acc =
          chunk_loop huge_text 1000 200 (start + 1000 - 200)
            (acc @ [replicate 1000 (CHR ''x'')])"
    using chunk_loop_step[of start huge_text acc] b unfolding e w by simp
  also have "start + 1000 - 200 = 800000 - 800 * int k" by (simp add: start_def)
  also have "chunk_loop huge_text 1000 200 (800000 - 800 * int k)
               (acc @ [replicate 1000 (CHR ''x'')])
             = Some ((acc @ [replicate 1000 (CHR ''x'')])
                       @ replicate (Suc k) (replicate 1000 (CHR ''x'')))"
    using Suc.prems by (intro Suc.IH) simp
  finally show ?case by (simp add: start_def replicate_app_Cons_same)
qed

lemma chunk_text_huge: "chunk_text huge_text 1000 200 = Some huge_chunks"
  using huge_text_loop[of 1000 "[]"] by (simp add: chunk_text_def huge_chunks_def)

lemma foldl_insert_chunk_eq:
  "foldl insert_chunk s xs =
     s\<lparr>chunks := chunks s @ zip [next_uuid s ..< next_uuid s + length xs] xs,
       next_uuid := next_uuid s + length xs\<rparr>"
proof (induction xs rule: rev_induct)
  case Nil
  then show ?case by simp
next
  case (snoc x xs)
  then show ?case by (simp add: insert_chunk_def)
qed

lemma length_chunk_objects [simp]: "length (chunk_objects d cs) = length cs"
  by (simp add: chunk_objects_def)

lemma first_index_of_huge_document:
  "index_document sample_sha empty_index huge_document True = Some (True, large_index)"
proof -
  have ci: "chunking_input huge_document = huge_text"
    by (simp add: chunking_input_def huge_document_def huge_text_def)
  have fe: "find_existing_document empty_index i h = None" for i h
    by (simp add: find_existing_document_def empty_index_def fetch_objects_def)
  have len: "length huge_chunks = 1001" by (simp add: huge_chunks_def)
  have "500 < length (doc_content huge_document)" by (simp add: huge_document_def)
  then show ?thesis
    by (simp add: index_document_def Let_def fe index_document_chunks_def ci chunk_text_huge
        foldl_insert_chunk_eq len large_index_def)
      (simp add: empty_index_def)
qed

lemma large_index_client: "client large_index"
  by (simp add: large_index_def)

lemma large_index_distinct: "distinct (map fst (chunks large_index))"
proof -
  have "length [1 ..< 1002 :: nat] = length (chunk_objects huge_document huge_chunks)"
    by (simp add: huge_chunks_def)
  then have "map fst (chunks large_index) = [1 ..< 1002]"
    unfolding large_index_def by (simp del: upt_Suc)
  then show ?thesis by (simp del: upt_Suc)
qed

lemma chunk_objects_parent:
  "c \<in> set (chunk_objects d cs) \<Longrightarrow> parent_dropbox_id c = doc_id d"
  by (auto simp: chunk_objects_def)

lemma huge_chunk_objects_count:
  "length (filter (\<lambda>c. parent_dropbox_id c = ''id:1'') (chunk_objects huge_document huge_chunks))
     = 1001"
proof -
  have "filter (\<lambda>c. parent_dropbox_id c = ''id:1'') (chunk_objects huge_document huge_chunks)
          = chunk_objects huge_document huge_chunks"
    by (rule filter_True) (auto dest: chunk_objects_parent simp: huge_document_def)
  then show ?thesis by (simp add: huge_chunks_def)
qed

lemma large_index_count: "count_chunks large_index ''id:1'' = 1001"
proof -
  have "filter (\<lambda>obj. parent_dropbox_id (snd obj) = ''id:1'') (chunks large_index)
          = chunks large_index"
    by (rule filter_True)
      (auto simp: large_index_def huge_document_def dest!: set_zip_rightD chunk_objects_parent)
  then show ?thesis by (simp add: count_chunks_def) (simp add: large_index_def huge_chunks_def)
qed

lemma large_index_existing:
  "find_existing_document large_index ''id:1'' h = Some 0"
  by (simp add: find_existing_document_def large_index_def fetch_objects_def
      prepare_document_for_weaviate_def huge_document_def)

lemma large_index_update: "update_by_id 0 p (documents large_index) = [(0, p)]"
  by (simp add: update_by_id_def large_index_def)

lemma index_document_short_existing:
  assumes "client s" "length (doc_content d) \<le> 500"
    and "find_existing_document s (doc_id d) (sha (doc_content d)) = Some u"
  shows "index_document sha s d True =
           Some (True, (delete_document_chunks s (doc_id d))
                         \<lparr>documents := update_by_id u
                            (prepare_document_for_weaviate d (sha (doc_content d)))
                            (documents s)\<rparr>)"
  using assms by (simp add: index_document_def Let_def)

lemma count_chunks_documents_update [simp]:
  "count_chunks (s\<lparr>documents := ds\<rparr>) i = count_chunks s i"
  by (simp add: count_chunks_def)

lemma count_chunks_foldl_insert_chunk:
  "count_chunks (foldl insert_chunk s xs) i =
     count_chunks s i + length (filter (\<lambda>c. parent_dropbox_id c = i) xs)"
  by (induction xs arbitrary: s) (simp_all add: insert_chunk_def count_chunks_def)

lemma shrinking_update:
  "index_document sample_sha large_index short_document True
     = Some (True, after_shrinking_update)"
proof -
  have l: "length (doc_content short_document) \<le> 500" by (simp add: short_document_def)
  have f: "find_existing_document large_index (doc_id short_document)
             (sample_sha (doc_content short_document)) = Some 0"
    by (simp add: short_document_def large_index_existing)
  show ?thesis
    unfolding index_document_short_existing[where sha = sample_sha, OF large_index_client l f]
      large_index_update after_shrinking_update_def
    by (simp add: short_document_def)
qed

lemma after_shrinking_update_count: "count_chunks after_shrinking_update ''id:1'' = 1"
  using delete_document_chunks_count[OF large_index_distinct, of "''id:1''"]
  by (simp add: after_shrinking_update_def large_index_count)

text \<open>
  C2. The store \<open>large_index\<close> is what indexing a text file of 801,000 characters into the
  empty store leaves: one document, \<open>id:1\<close>, and its 1001 chunks. The file is then replaced
  by the five characters \<open>short\<close> and indexed again with chunking enabled. The document is
  found by its id, its content is below the chunking threshold, and the call succeeds; one
  of the old chunks is still in the chunk collection afterwards, because the cleanup fetches
  at most 1000 chunks.
\<close>

theorem C2_chunks_survive_shrinking_update:
  "index_document sample_sha empty_index huge_document True = Some (True, large_index)
   \<and> count_chunks large_index ''id:1'' = 1001
   \<and> find_existing_document large_index (doc_id short_document)
        (sample_sha (doc_content short_document)) = Some 0
   \<and> length (doc_content short_document) \<le> 500
   \<and> index_document sample_sha large_index short_document True
        = Some (True, after_shrinking_update)
   \<and> count_chunks after_shrinking_update ''id:1'' = 1"
  by (simp add: first_index_of_huge_document large_index_count shrinking_update
      after_shrinking_update_count)
    (simp add: short_document_def large_index_existing)

lemma second_indexing:
  "index_document sample_sha large_index huge_document True
     = Some (True, after_second_indexing)"
proof -
  have ci: "chunking_input huge_document = huge_text"
    by (simp add: chunking_input_def huge_document_def huge_text_def)
  have f: "find_existing_document large_index (doc_id huge_document) h = Some 0" for h
    by (simp add: huge_document_def large_index_existing)
  have "500 < length (doc_content huge_document)" by (simp add: huge_document_def)
  then show ?thesis
    using large_index_client
    by (simp add: index_document_def Let_def f index_document_chunks_def ci chunk_text_huge
        large_index_update after_second_indexing_def)
      (simp add: huge_document_def)
qed

lemma after_second_indexing_count: "count_chunks after_second_indexing ''id:1'' = 1002"
  using delete_document_chunks_count[OF large_index_distinct, of "''id:1''"]
  by (simp add: after_second_indexing_def count_chunks_foldl_insert_chunk
      huge_chunk_objects_count large_index_count)

text \<open>
  C3. A text file of 801,000 characters is indexed twice in a row, starting from the empty
  store. Both calls succeed and the Document collection holds one object after each of them
  (the second call updates it). The chunk set is not the same after the second call as after
  the first: the parent has 1001 chunks after the first call and 1002 after the second.
\<close>

theorem C3_second_identical_call_changes_chunks:
  "index_document sample_sha empty_index huge_document True = Some (True, large_index)
   \<and> index_document sample_sha large_index huge_document True
        = Some (True, after_second_indexing)
   \<and> length (documents large_index) = 1
   \<and> length (documents after_second_indexing) = 1
   \<and> count_chunks large_index ''id:1'' = 1001
   \<and> count_chunks after_second_indexing ''id:1'' = 1002"
  by (simp add: first_index_of_huge_document second_indexing large_index_count
      after_second_indexing_count)
    (simp add: large_index_def after_second_indexing_def)

section \<open>Incremental sync: add or modify, and the expired cursor\<close>

text \<open>
  Two facts that hold at every input. A document that has just been indexed with a
  non-empty id is found in the index, so the check made after indexing always answers
  ``modified''. And a run over entries that carry no change type, such as those of a full
  listing, only counts them.
\<close>

lemma fetch_objects_nonempty:
  "obj \<in> set objs \<Longrightarrow> f (snd obj) \<Longrightarrow> fetch_objects f (Suc n) objs \<noteq> []"
  by (auto simp: fetch_objects_def filter_empty_conv)

lemma find_existing_document_by_id:
  assumes "client s" "i \<noteq> []" "(u, obj) \<in> set (documents s)" "dropbox_id obj = i"
  shows "find_existing_document s i h \<noteq> None"
proof -
  have "fetch_objects (\<lambda>d. dropbox_id d = i) 1 (documents s) \<noteq> []"
    using fetch_objects_nonempty[of "(u, obj)" "documents s" "\<lambda>d. dropbox_id d = i" 0] assms
    by simp
  then show ?thesis
    using assms(1,2) by (auto simp: find_existing_document_def split: list.splits)
qed

lemma index_document_stores:
  assumes "index_document sha s d True = Some (True, s')"
  shows "client s' \<and> (\<exists>u obj. (u, obj) \<in> set (documents s') \<and> dropbox_id obj = doc_id d)"
proof -
  have c: "client s" using assms by (auto simp: index_document_def split: if_splits)
  define hash where "hash = sha (doc_content d)"
  define existing where "existing = find_existing_document s (doc_id d) hash"
  define s1 where "s1 = (if existing \<noteq> None then delete_document_chunks s (doc_id d) else s)"
  define wd where "wd = prepare_document_for_weaviate d hash"
  define s2 where "s2 = (case existing of
                    Some uuid \<Rightarrow> s1\<lparr>documents := update_by_id uuid wd (documents s1)\<rparr>
                  | None \<Rightarrow> s1\<lparr>documents := documents s1 @ [(next_uuid s1, wd)],
                                next_uuid := Suc (next_uuid s1)\<rparr>)"
  have docs1: "documents s1 = documents s" and c1: "client s1" using c by (simp_all add: s1_def)
  have s': "documents s' = documents s2 \<and> client s' = client s2"
    using assms c
    unfolding s2_def wd_def s1_def existing_def hash_def index_document_def
    by (auto simp: Let_def index_document_chunks_def split: option.splits if_splits)
  have c2: "client s2" using c1 by (auto simp: s2_def split: option.splits)
  have "\<exists>u. (u, wd) \<in> set (documents s2)"
  proof (cases existing)
    case None
    then show ?thesis by (auto simp: s2_def)
  next
    case (Some u)
    then have "u \<in> fst ` set (documents s1)"
      using find_existing_document_in_index[of s "doc_id d" hash u] docs1
      by (simp add: existing_def)
    then show ?thesis using Some update_by_id_member[of u "documents s1" wd]
      by (auto simp: s2_def)
  qed
  moreover have "dropbox_id wd = doc_id d"
    by (simp add: wd_def prepare_document_for_weaviate_def)
  ultimately show ?thesis using s' c2 by auto
qed

lemma indexed_file_exists:
  assumes "index_document sha s d True = Some (True, s')" "doc_id d \<noteq> []"
  shows "file_exists_in_index s' (doc_id d)"
proof -
  from index_document_stores[OF assms(1)] obtain u obj where
    "client s'" "(u, obj) \<in> set (documents s')" "dropbox_id obj = doc_id d" by blast
  from find_existing_document_by_id[OF this(1) assms(2) this(2,3)] show ?thesis
    by (simp add: file_exists_in_index_def document_exists_def)
qed

lemma incremental_loop_untagged:
  "\<forall>m \<in> set ms. md_change_type m = None \<Longrightarrow>
     incremental_loop E sha R c ms (stats, s)
       = Some (stats\<lparr>changes_processed := changes_processed stats + length ms\<rparr>, s)"
  by (induction ms arbitrary: stats) simp_all

lemma list_folder_untagged:
  "m \<in> set (fst (list_folder R c path)) \<Longrightarrow> md_change_type m = None"
  by (auto simp: list_folder_def entry_to_dict_def split: if_splits sum.splits prod.splits)

lemma should_index_notes: "should_index_file ''/docs/notes.txt''"
  by (simp add: should_index_file_def suffix_notes)

lemma process_notes:
  "process_document sample_extractors ''hello'' (m\<lparr>md_path_display := ''/docs/notes.txt''\<rparr>)
     = Some \<lparr>doc_id = md_id m, doc_name = md_name m, doc_file_path = ''/docs/notes.txt'',
             doc_content = ''hello'', doc_full_text = Some ''hello''\<rparr>"
  by (simp add: process_document_def suffix_notes extract_text_def sample_extractors_def)

lemma index_notes_into_empty:
  "index_document sample_sha empty_index
     \<lparr>doc_id = ''id:1'', doc_name = ''notes.txt'', doc_file_path = ''/docs/notes.txt'',
      doc_content = ''hello'', doc_full_text = Some ''hello''\<rparr> True
   = Some (True, notes_index)"
  by (simp add: index_document_def Let_def find_existing_document_def empty_index_def
      fetch_objects_def prepare_document_for_weaviate_def notes_index_def)

lemma notes_exists_after: "file_exists_in_index notes_index ''id:1''"
  by (simp add: file_exists_in_index_def document_exists_def find_existing_document_def
      notes_index_def fetch_objects_def)

lemma notes_absent_before: "\<not> file_exists_in_index empty_index ''id:1''"
  by (simp add: file_exists_in_index_def document_exists_def find_existing_document_def
      empty_index_def fetch_objects_def)

lemma feed_changes:
  "list_folder_changes feed_remote synced_client ''/docs''
     = ([change_data notes_entry], False,
        synced_client\<lparr>cursors := (cursors synced_client)(''/docs'' \<mapsto> ''cursor-2'')\<rparr>)"
  by (simp add: list_folder_changes_def synced_client_def feed_remote_def cursor_key_def)

lemma process_and_index_notes:
  "process_and_index_file sample_extractors sample_sha feed_remote synced_client empty_index
     (change_data notes_entry) = Some (True, notes_index)"
  using process_notes[of "change_data notes_entry"] index_notes_into_empty
  by (simp add: process_and_index_file_def download_file_def synced_client_def feed_remote_def
      change_data_def entry_to_dict_def notes_entry_def)

text \<open>
  C8. The index is empty and the change feed reports one new file, \<open>/docs/notes.txt\<close>, tagged
  \<open>added_or_modified\<close>. The file is not in the index before the run, yet the run counts it
  as modified and not as added: the existence check is made against the index as it is
  after the file has been indexed.
\<close>

theorem C8_new_file_counted_as_modified:
  "\<not> file_exists_in_index empty_index ''id:1''
   \<and> (\<exists>c'. perform_incremental_sync sample_extractors sample_sha feed_remote ''/docs''
              (synced_client, empty_index)
            = Some (\<lparr>changes_processed = 1, files_added = 0, files_modified = 1,
                      files_deleted = 0, files_failed = 0, error = False\<rparr>,
                    c', notes_index))"
proof -
  have ct: "md_change_type (change_data notes_entry) = Some ''added_or_modified''"
    "md_path_display (change_data notes_entry) = ''/docs/notes.txt''"
    "md_id (change_data notes_entry) = ''id:1''"
    by (simp_all add: change_data_def entry_to_dict_def determine_change_type_def notes_entry_def)
  show ?thesis
    by (simp add: notes_absent_before perform_incremental_sync_def feed_changes ct
        should_index_notes process_and_index_notes notes_exists_after)
qed





section \<open>Context carry-over\<close>

lemma search_with_context_is_search:
  "search_with_context X B str_of ctx q = search X B str_of ctx q 10"
  by (simp add: search_with_context_def Let_def)

lemma follow_up_is_referential: "contains ''that'' (lower follow_up_query)"
  by (simp add: follow_up_query_def lower_def lower_char_def)

lemma follow_up_inherits:
  "follow_up_entities sample_extractor previous_context follow_up_query
     = invoice_entities\<lparr>project := Some ''Mitchell''\<rparr>"
  using follow_up_is_referential
  by (simp add: follow_up_entities_def sample_extractor_def previous_context_def
      inherit_context_def Let_def truthy_def mitchell_entities_def invoice_entities_def)

lemma combine_no_hits: "combine_results [] [] = Some []"
  by (simp add: combine_results_def chunks_by_parent_def)

lemma invoice_strategies:
  "build_search_strategies invoice_entities =
     [\<lparr>stype = hybrid, query = ''invoice'', alpha = Some 0.5,
       filters = Some (Like ''document_type'' ''*invoice*'')\<rparr>,
      \<lparr>stype = hybrid, query = ''invoice'', alpha = Some 0.7, filters = None\<rparr>]"
  by (simp add: build_search_strategies_def strategy_terms_def build_filters_def
      invoice_entities_def truthy_def)

lemma inherited_strategies:
  "build_search_strategies (invoice_entities\<lparr>project := Some ''Mitchell''\<rparr>) =
     [\<lparr>stype = hybrid, query = ''Mitchell invoice'', alpha = Some 0.5,
       filters = Some (All_of (Like ''project_name'' ''*Mitchell*'')
                              (Like ''document_type'' ''*invoice*''))\<rparr>,
      \<lparr>stype = vector, query = ''Mitchell invoice'', alpha = None,
       filters = Some (All_of (Like ''project_name'' ''*Mitchell*'')
                              (Like ''document_type'' ''*invoice*''))\<rparr>,
      \<lparr>stype = hybrid, query = ''Mitchell invoice'', alpha = Some 0.7, filters = None\<rparr>]"
  by (simp add: build_search_strategies_def strategy_terms_def build_filters_def
      invoice_entities_def truthy_def)

lemma no_hit_for_invoice:
  "query st = ''invoice'' \<Longrightarrow> execute_search sample_backend st = []"
  by (simp add: execute_search_def sample_backend_def combine_no_hits)

lemma hit_for_mitchell_invoice:
  "query st = ''Mitchell invoice'' \<Longrightarrow> execute_search sample_backend st = [mitchell_invoice]"
  by (simp add: execute_search_def sample_backend_def combine_results_def chunks_by_parent_def
      mitchell_invoice_def result_id_def or_else_def truthy_def)

text \<open>
  C5. The previous turn extracted the project \<open>Mitchell\<close>; the follow-up \<open>show me the invoice
  for that\<close> names no project. \<open>search_with_context\<close> computes the entities with the project
  inherited, and then calls \<open>search\<close> with the query alone, which extracts the entities anew:
  the search runs on entities without a project and finds nothing, where the strategies
  built from the inherited entities find the Mitchell invoice.
\<close>

theorem C5_inherited_entities_not_used:
  "contains ''that'' (lower follow_up_query)
   \<and> follow_up_entities sample_extractor previous_context follow_up_query
       = invoice_entities\<lparr>project := Some ''Mitchell''\<rparr>
   \<and> search_with_context sample_extractor sample_backend sample_str_of previous_context
         follow_up_query
       = (\<lparr>success = False, results = [], entities_extracted = invoice_entities,
            strategies_tried = 2, total_found = 0\<rparr>, previous_context)
   \<and> concat (map (execute_search sample_backend)
        (build_search_strategies (invoice_entities\<lparr>project := Some ''Mitchell''\<rparr>)))
       = [mitchell_invoice, mitchell_invoice, mitchell_invoice]"
proof -
  have "search sample_extractor sample_backend sample_str_of previous_context
          follow_up_query 10
       = (\<lparr>success = False, results = [], entities_extracted = invoice_entities,
            strategies_tried = 2, total_found = 0\<rparr>, previous_context)"
    by (simp add: search_def Let_def sample_extractor_def invoice_strategies
        no_hit_for_invoice rank_results_def sorted_desc_def slice_def)
  then show ?thesis
    by (simp add: search_with_context_is_search follow_up_is_referential follow_up_inherits
        inherited_strategies hit_for_mitchell_invoice)
qed

section \<open>Fusion and deduplication\<close>


lemma sorted_desc_single [simp]: "sorted_desc key [x] = [x]"
  by (simp add: sorted_desc_def)

lemma set_sorted_desc [simp]: "set (sorted_desc key xs) = set xs"
  by (simp add: sorted_desc_def)

lemma sorted_desc_Nil_iff [simp]: "sorted_desc key xs = [] \<longleftrightarrow> xs = []"
  by (metis set_sorted_desc set_empty)














section \<open>LIST\_ALL completeness\<close>

lemma scan_objects_no_match:
  "\<forall>obj \<in> set objs. \<not> service_match term obj \<Longrightarrow> scan_objects term objs st = st"
  by (induction objs arbitrary: st) (auto simp: prod_eq_iff split: prod.splits)

lemma scan_objects_append:
  "scan_objects term (xs @ ys) st = scan_objects term ys (scan_objects term xs st)"
proof (induction xs arbitrary: st)
  case Nil
  then show ?case by simp
next
  case (Cons x xs)
  obtain a b where st: "st = (a, b)" by (cases st)
  show ?case unfolding st by (simp add: Cons.IH)
qed

lemma glass_terms:
  "remdups (lower ''glass'' # service_variations ''glass'')
     = [''glass'', ''windows'', ''glazing'', ''windows labor'', ''mirrors'']"
  by (simp add: service_variations_def lower_def lower_char_def)

lemma plumbers_offer_no_glass:
  assumes "obj \<in> set (plumbers n)"
    and "term \<in> set [''glass'', ''windows'', ''glazing'', ''windows labor'', ''mirrors'']"
  shows "\<not> service_match term obj"
proof -
  from assms(1) have "services obj = [''plumbing'']" by (auto simp: plumbers_def)
  with assms(2) show ?thesis
    by (auto simp: service_match_def lower_def lower_char_def)
qed

lemma scan_plumbers:
  "term \<in> set [''glass'', ''windows'', ''glazing'', ''windows labor'', ''mirrors'']
     \<Longrightarrow> scan_objects term (plumbers n) st = st"
  by (rule scan_objects_no_match) (blast dest: plumbers_offer_no_glass)

lemma glass_company_matches: "service_match ''glass'' glass_company"
  by (simp add: service_match_def glass_company_def lower_def lower_char_def)

lemma take_large_directory: "take 1000 large_directory = plumbers 1000"
  by (simp add: large_directory_def plumbers_def)

lemma glass_search_large_directory:
  "search_companies_with_filter remdups large_directory ''glass'' 1000 = []"
  unfolding search_companies_with_filter_def Let_def glass_terms take_large_directory
  by (simp add: scan_plumbers sorted_desc_def)

lemma glass_search_smaller_directory:
  "search_companies_with_filter remdups (plumbers 999 @ [glass_company]) ''glass'' 1000
     = [\<lparr>res_company = ''Clear View Glass'', res_services = [''glass''], res_hired = True,
         res_score = None\<rparr>]"
proof -
  have t: "take 1000 (plumbers 999 @ [glass_company]) = plumbers 999 @ [glass_company]"
    by (simp add: plumbers_def)
  show ?thesis
    unfolding search_companies_with_filter_def Let_def glass_terms t
    by (simp add: scan_objects_append scan_plumbers sorted_desc_def service_match_def
        glass_company_def lower_def lower_char_def)
qed

text \<open>
  C4. The directory holds 1001 companies; the one that offers glass is the last object the
  store returns. For the \<open>LIST_ALL\<close> query with the service term \<open>glass\<close> the classifier finds
  no company and answers that it has no relevant information, because each scan fetches at
  most 1000 objects. With one company fewer in front of it, the same company is found.
\<close>

theorem C4_list_all_misses_company_beyond_limit:
  "length large_directory = 1001
   \<and> glass_company \<in> set large_directory
   \<and> service_match ''glass'' glass_company
   \<and> kb_search sample_collaborators large_directory LIST_ALL ''glass''
        ''list all glass suppliers'' 0 None = No_relevant_information
   \<and> kb_search sample_collaborators (plumbers 999 @ [glass_company]) LIST_ALL ''glass''
        ''list all glass suppliers'' 0 None
       = Context [\<lparr>res_company = ''Clear View Glass'', res_services = [''glass''],
                   res_hired = True, res_score = None\<rparr>]"
proof -
  have s: "set_order sample_collaborators = remdups" "\<not> voyage_client sample_collaborators"
    by (simp_all add: sample_collaborators_def)
  have c: "\<not> contains ''supplier'' (lower ''glass'')" "\<not> contains ''contractor'' (lower ''glass'')"
    by (simp_all add: lower_def lower_char_def)
  have "length large_directory = 1001" "glass_company \<in> set large_directory"
    by (simp_all add: large_directory_def plumbers_def)
  moreover have "kb_search sample_collaborators large_directory LIST_ALL ''glass''
        ''list all glass suppliers'' 0 None = No_relevant_information"
    by (simp add: kb_search_def list_all_results_def s c glass_search_large_directory)
  moreover have "kb_search sample_collaborators (plumbers 999 @ [glass_company]) LIST_ALL
        ''glass'' ''list all glass suppliers'' 0 None
       = Context [\<lparr>res_company = ''Clear View Glass'', res_services = [''glass''],
                   res_hired = True, res_score = None\<rparr>]"
    by (simp add: kb_search_def list_all_results_def s glass_search_smaller_directory)
  ultimately show ?thesis using glass_company_matches by simp
qed

end
